theory Spec2Isabelle
  imports Complex_Main "HOL-Library.Word"
begin

section \<open>Conventions of the embedding\<close>

text \<open>
  The Go sources are embedded as follows.
  \<^item> \<open>float64\<close> is read as \<open>real\<close>: capacities and rates are exact, rounding is not modelled.
  \<^item> \<open>int\<close> (64 bit on the build target \<open>GOARCH=amd64\<close>) is \<open>64 word\<close>, compared as a
    signed number.
  \<^item> \<open>time.Time\<close> is the reading of the monotonic clock in nanoseconds, \<open>time.Duration\<close> a
    number of nanoseconds; both are \<open>int\<close>.
  \<^item> A goroutine's interaction with its environment (the clock, the channel, the upstream
    client) is an explicit argument of the function that models it.
  \<^item> Logging calls are dropped.
\<close>

section \<open>Go library functions, as the sources use them\<close>

fun strings_HasPrefix :: "string \<Rightarrow> string \<Rightarrow> bool" where
  "strings_HasPrefix s [] = True"
| "strings_HasPrefix [] (p # ps) = False"
| "strings_HasPrefix (c # cs) (p # ps) = (c = p \<and> strings_HasPrefix cs ps)"

definition strings_HasSuffix :: "string \<Rightarrow> string \<Rightarrow> bool" where
  "strings_HasSuffix s suffix = strings_HasPrefix (rev s) (rev suffix)"

fun strings_Contains :: "string \<Rightarrow> string \<Rightarrow> bool" where
  "strings_Contains [] substr = (substr = [])"
| "strings_Contains (c # cs) substr = (strings_HasPrefix (c # cs) substr \<or> strings_Contains cs substr)"

text \<open>\<open>strings.Split\<close> for a separator of one character, the only use the sources make of it.\<close>

fun strings_Split :: "string \<Rightarrow> char \<Rightarrow> string list" where
  "strings_Split [] sep = [[]]"
| "strings_Split (c # cs) sep =
     (if c = sep then [] # strings_Split cs sep
      else (case strings_Split cs sep of
              [] \<Rightarrow> [[c]]
            | x # xs \<Rightarrow> (c # x) # xs))"

fun strings_Join :: "string list \<Rightarrow> string \<Rightarrow> string" where
  "strings_Join [] sep = []"
| "strings_Join [x] sep = x"
| "strings_Join (x # y # ys) sep = x @ sep @ strings_Join (y # ys) sep"

section \<open>config.go\<close>

record ModelConfig =
  MaxQueueSize :: int
  MaxQueueWait :: real
  ReqsPerMinute :: real
  TokensPerMinute :: real
  CharsPerMinute :: real

record RouteConfig =
  Forward :: string
  RouteProvider :: string
  Models :: "string \<rightharpoonup> ModelConfig"

section \<open>scheduler.go: data\<close>

datatype Response = Ready | RateLimit | RequestTooLarge

text \<open>
  The parts of \<open>*url.URL\<close>, \<open>*http.Request\<close> and \<open>*http.Response\<close> that the
  sources read. \<open>Body\<close> is what \<open>ioutil.ReadAll\<close> returns for the body: the bytes
  (\<open>Inr\<close>) or the error text (\<open>Inl\<close>).
\<close>

record URL =
  Scheme :: string
  Host :: string
  Path :: string
  RawQuery :: string

record HttpRequest =
  Method :: string
  URL :: URL
  Body :: "string + string"
  Header :: "(string \<times> string) list"

record HttpResponse =
  StatusCode :: nat
  ResponseHeader :: "(string \<times> string) list"
  ResponseBody :: string

text \<open>\<open>ResponseChannel\<close> is the identity of the reply channel made by the handler.\<close>

record ScheduledRequest =
  Request :: HttpRequest
  ResponseChannel :: nat
  RequiredTokenCapacity :: real

text \<open>
  \<open>Requests\<close> is the content of the buffered channel, oldest first; its capacity is
  \<open>MaxQueueSize\<close> of the configuration (\<open>make(chan ScheduledRequest, MaxQueueSize)\<close>).
\<close>

record Scheduler =
  Config :: ModelConfig
  Provider :: string
  SchedulerName :: string
  Requests :: "ScheduledRequest list"
  LastReqTime :: int
  RequestCapacity :: real
  TokenCapacity :: real

definition initScheduler :: "string \<Rightarrow> string \<Rightarrow> ModelConfig \<Rightarrow> int \<Rightarrow> Scheduler" where
  "initScheduler provider name schedulerConfig now =
     \<lparr>Config = schedulerConfig, Provider = provider, SchedulerName = name, Requests = [],
      LastReqTime = now, RequestCapacity = ReqsPerMinute schedulerConfig,
      TokenCapacity = TokensPerMinute schedulerConfig\<rparr>"

type_synonym SchedulerMap = "string \<rightharpoonup> Scheduler"

text \<open>
  \<open>initSchedulers\<close> at clock reading \<open>now\<close>. It also starts \<open>run\<close> for every scheduler;
  that loop is modelled below.
\<close>

definition initSchedulers :: "string \<Rightarrow> (string \<rightharpoonup> ModelConfig) \<Rightarrow> int \<Rightarrow> SchedulerMap" where
  "initSchedulers provider config now =
     (\<lambda>name. map_option (\<lambda>schedulerConfig. initScheduler provider name schedulerConfig now) (config name))"

section \<open>scheduler.go: capacity\<close>

text \<open>\<open>Duration.Minutes\<close> and the conversion \<open>time.Duration(x)\<close> of a float, which truncates.\<close>

definition Minutes :: "int \<Rightarrow> real" where
  "Minutes d = real_of_int d / (60 * 10 ^ 9)"

definition Duration_of_float :: "real \<Rightarrow> int" where
  "Duration_of_float x = (if 0 \<le> x then \<lfloor>x\<rfloor> else \<lceil>x\<rceil>)"

definition Second :: real where
  "Second = 10 ^ 9"

definition updateCapacity :: "int \<Rightarrow> Scheduler \<Rightarrow> Scheduler" where
  "updateCapacity now s =
     (let s1 =
        (if TokenCapacity s < TokensPerMinute (Config s) \<or> RequestCapacity s < ReqsPerMinute (Config s)
         then
           let elapsed = Minutes (now - LastReqTime s);
               tokenCapacity = TokenCapacity s + elapsed * TokensPerMinute (Config s);
               requestCapacity = RequestCapacity s + elapsed * ReqsPerMinute (Config s)
           in s\<lparr>TokenCapacity := min tokenCapacity (TokensPerMinute (Config s)),
                RequestCapacity := min requestCapacity (ReqsPerMinute (Config s))\<rparr>
         else s)
      in s1\<lparr>LastReqTime := now\<rparr>)"

definition epsilon :: real where
  "epsilon = 0.1"

definition requestTime :: "Scheduler \<Rightarrow> real" where
  "requestTime s = max 0.0 ((1 - RequestCapacity s) / ReqsPerMinute (Config s))"

definition tokensTime :: "ScheduledRequest \<Rightarrow> Scheduler \<Rightarrow> real" where
  "tokensTime request s =
     max 0.0 ((RequiredTokenCapacity request - TokenCapacity s) / TokensPerMinute (Config s))"

definition capacityTime :: "ScheduledRequest \<Rightarrow> Scheduler \<Rightarrow> real" where
  "capacityTime request s = max (requestTime s) (tokensTime request s)"

definition sleepTime :: "real \<Rightarrow> int" where
  "sleepTime capTime = Duration_of_float (min 2.0 (capTime + epsilon) * Second)"

text \<open>
  The loop of \<open>waitForCapacity\<close>. The state is the scheduler and the clock. \<open>time.Sleep d\<close>
  returns after \<open>d\<close> nanoseconds or later; the list gives, for each sleep of the loop, how
  many nanoseconds later. The result is \<open>None\<close> when the loop has not returned after the
  sleeps the list provides (\<open>waitForCapacity_returns\<close> below: 600 sleeps are enough).
\<close>

fun waitForCapacity :: "ScheduledRequest \<Rightarrow> nat list \<Rightarrow> Scheduler \<times> int \<Rightarrow> (Scheduler \<times> int) option" where
  "waitForCapacity request [] (s, clock) =
     (let s1 = updateCapacity clock s
      in if capacityTime request s1 \<le> 0.0 then Some (s1, clock) else None)"
| "waitForCapacity request (late # lates) (s, clock) =
     (let s1 = updateCapacity clock s
      in if capacityTime request s1 \<le> 0.0 then Some (s1, clock)
         else waitForCapacity request lates
                (s1, clock + sleepTime (capacityTime request s1) + int late))"

section \<open>scheduler.go: the admission loop\<close>

text \<open>
  What the \<open>select\<close> at the head of the loop yields is decided by the environment:
  \<open>Arrival d request lates\<close> is a request received \<open>d\<close> nanoseconds after the iteration
  began (\<open>lates\<close> are the delays of the sleeps that follow), \<open>Idle late\<close> is the two-second
  timer firing \<open>late\<close> nanoseconds after it was due. The loop reads the channel through
  this receive only, so the request it got is an argument, and the field \<open>Requests\<close>,
  which the senders consult, is left as it is.
\<close>

datatype Event = Arrival nat ScheduledRequest "nat list" | Idle nat

text \<open>
  One iteration of the \<open>for\<close> loop of \<open>run\<close>. The result holds the new state and the
  verdict sent, with the channel it was sent on.
\<close>

fun run_iteration :: "Event \<Rightarrow> Scheduler \<times> int \<Rightarrow> ((Scheduler \<times> int) \<times> (nat \<times> Response) option) option" where
  "run_iteration (Idle late) (s, clock) =
     (let now = clock + 2 * 10 ^ 9 + int late
      in Some ((updateCapacity now s, now), None))"
| "run_iteration (Arrival d request lates) (s, clock) =
     (let now = clock + int d
      in if RequiredTokenCapacity request > TokensPerMinute (Config s)
         then Some ((s, now), Some (ResponseChannel request, RequestTooLarge))
         else
           (case waitForCapacity request lates (s, now) of
              None \<Rightarrow> None
            | Some (s1, now1) \<Rightarrow>
                Some ((s1\<lparr>TokenCapacity := TokenCapacity s1 - RequiredTokenCapacity request,
                           RequestCapacity := RequestCapacity s1 - 1\<rparr>, now1),
                      Some (ResponseChannel request, Ready))))"

datatype Fatal = RpmTooLow | TpmTooLow | WrongProvider

fun run_loop :: "Event list \<Rightarrow> Scheduler \<times> int \<Rightarrow> ((Scheduler \<times> int) \<times> (nat \<times> Response) list) option" where
  "run_loop [] w = Some (w, [])"
| "run_loop (e # es) w =
     (case run_iteration e w of
        None \<Rightarrow> None
      | Some (w1, sent) \<Rightarrow>
          (case run_loop es w1 of
             None \<Rightarrow> None
           | Some (w2, sends) \<Rightarrow> Some (w2, (case sent of None \<Rightarrow> [] | Some v \<Rightarrow> [v]) @ sends)))"

text \<open>
  \<open>run\<close> on a finite prefix of the events: the two start-up checks end the process
  (\<open>Fatalw\<close>), otherwise the loop runs.
\<close>

definition run :: "Event list \<Rightarrow> Scheduler \<times> int \<Rightarrow> Fatal + ((Scheduler \<times> int) \<times> (nat \<times> Response) list) option" where
  "run es w =
     (if ReqsPerMinute (Config (fst w)) \<le> 1 then Inl RpmTooLow
      else if TokensPerMinute (Config (fst w)) \<le> 1 then Inl TpmTooLow
      else Inr (run_loop es w))"

section \<open>openai.go: requests and token counts\<close>

text \<open>
  The request structures come from \<open>go-openai\<close>; only the fields the sources read are
  kept. \<open>EditsRequest.Model\<close> is a pointer, so it may be \<open>nil\<close>.
\<close>

record ChatCompletionMessage =
  Role :: string
  Content :: string
  Name :: string

record ChatCompletionRequest =
  Model :: string
  Messages :: "ChatCompletionMessage list"
  MaxTokens :: "64 word"
  N :: "64 word"

datatype Request =
    Audio string
  | Chat ChatCompletionRequest
  | Completion string
  | Embedding string
  | Edits "string option"

text \<open>
  A \<open>*tiktoken.Tiktoken\<close> is read through \<open>Encode\<close> only: it maps a text to its tokens.
\<close>

type_synonym Tiktoken = "string \<Rightarrow> nat list"

text \<open>
  The libraries the handler calls are arguments of the model:
  \<open>json.Unmarshal\<close> into each request structure, \<open>tiktoken.EncodingForModel\<close>,
  \<open>URL.String\<close>, \<open>url.Parse\<close>, and the error \<open>io.Copy\<close> returns when the response is
  streamed back. An error is \<open>Inl\<close> of its text.
\<close>

record Env =
  json_Audio :: "string \<Rightarrow> string + string"
  json_Chat :: "string \<Rightarrow> string + ChatCompletionRequest"
  json_Completion :: "string \<Rightarrow> string + string"
  json_Embedding :: "string \<Rightarrow> string + string"
  json_Edits :: "string \<Rightarrow> string + string option"
  EncodingForModel :: "string \<Rightarrow> string + Tiktoken"
  URL_String :: "URL \<Rightarrow> string"
  url_Parse :: "string \<Rightarrow> string + URL"
  io_Copy :: "HttpResponse \<Rightarrow> string option"

definition GPT_3_5_DEFAULT :: string where
  "GPT_3_5_DEFAULT = ''gpt-3.5-turbo-0613''"

definition GPT_4_DEFAULT :: string where
  "GPT_4_DEFAULT = ''gpt-4-0613''"

definition len :: "'a list \<Rightarrow> 64 word" where
  "len xs = of_nat (length xs)"

text \<open>The \<open>switch\<close> on the model: \<open>tokensPerMessage\<close> and \<open>tokensPerName\<close>, or no case matches.\<close>

definition tokensPerModel :: "string \<Rightarrow> (64 word \<times> 64 word) option" where
  "tokensPerModel model =
     (if model = ''gpt-3.5-turbo-0301'' then Some (4, - 1)
      else if model = ''gpt-3.5-turbo-0613'' \<or> model = ''gpt-3.5-turbo-16k-0613'' \<or>
              model = ''gpt-4-0314'' \<or> model = ''gpt-4-32k-0314'' \<or>
              model = ''gpt-4-0613'' \<or> model = ''gpt-4-32k-0613'' then Some (3, 1)
      else if strings_Contains model ''gpt-3.5-turbo'' \<or> strings_Contains model ''gpt-4''
      then Some (3, 1)
      else None)"

text \<open>The loop over the messages, with \<open>numTokens\<close> as the accumulator.\<close>

fun countMessages :: "Tiktoken \<Rightarrow> 64 word \<Rightarrow> 64 word \<Rightarrow> ChatCompletionMessage list \<Rightarrow> 64 word \<Rightarrow> 64 word" where
  "countMessages tkm tokensPerMessage tokensPerName [] numTokens = numTokens"
| "countMessages tkm tokensPerMessage tokensPerName (message # messages) numTokens =
     (let n1 = numTokens + tokensPerMessage;
          n2 = n1 + len (tkm (Content message));
          n3 = n2 + len (tkm (Role message));
          n4 = n3 + len (tkm (Name message));
          n5 = (if Name message \<noteq> [] then n4 + tokensPerName else n4)
      in countMessages tkm tokensPerMessage tokensPerName messages n5)"

definition ChatCompletionRequest_TokensForRequest :: "Env \<Rightarrow> ChatCompletionRequest \<Rightarrow> string + 64 word" where
  "ChatCompletionRequest_TokensForRequest env r =
     (case EncodingForModel env (Model r) of
        Inl err \<Rightarrow> Inl (''encoding for model: '' @ err)
      | Inr tkm \<Rightarrow>
          let model = (if Model r = ''gpt-3.5-turbo'' then GPT_3_5_DEFAULT
                       else if Model r = ''gpt-4'' then GPT_4_DEFAULT
                       else Model r);
              tokensPerRequest = 3
          in (case tokensPerModel model of
                None \<Rightarrow> Inl (''Unexpected model for chat completions: '' @ model)
              | Some (tokensPerMessage, tokensPerName) \<Rightarrow>
                  let numTokens = countMessages tkm tokensPerMessage tokensPerName (Messages r) 0;
                      numTokens = numTokens + tokensPerRequest;
                      n = (if N r <s 1 then 1 else N r);
                      maxTokens = (if MaxTokens r <s 1 then 15 else MaxTokens r)
                  in Inr (numTokens + n * maxTokens)))"

fun TokensForRequest :: "Env \<Rightarrow> Request \<Rightarrow> string + 64 word" where
  "TokensForRequest env (Audio model) = Inr 1000"
| "TokensForRequest env (Chat r) = ChatCompletionRequest_TokensForRequest env r"
| "TokensForRequest env (Completion model) = Inr 1000"
| "TokensForRequest env (Embedding model) = Inr 1000"
| "TokensForRequest env (Edits model) = Inr 1000"

section \<open>openai.go: ParseRequest\<close>

text \<open>
  The three results \<open>(model, request, err)\<close>: \<open>Parsed model request\<close> when \<open>err\<close> is
  \<open>nil\<close> (\<open>request\<close> may be \<open>nil\<close>), \<open>ParseError\<close> with the text of \<open>err\<close>, and
  \<open>ParsePanic\<close> for the dereference of a \<open>nil\<close> model in an edits request.
\<close>

datatype ParseResult = Parsed string "Request option" | ParseError string | ParsePanic

definition bodyError :: "string \<Rightarrow> string \<Rightarrow> string" where
  "bodyError path err = ''error reading request body, '' @ path @ '': '' @ err"

definition ParseRequest :: "Env \<Rightarrow> HttpRequest \<Rightarrow> ParseResult" where
  "ParseRequest env r =
     (if Method r \<noteq> ''POST'' then Parsed [] None
      else case Body r of
        Inl err \<Rightarrow> ParseError (''error reading request body: '' @ err)
      | Inr bodyRaw \<Rightarrow>
          let path = Path (URL r) in
          if strings_Contains path ''/v1/files'' then Parsed [] None
          else if strings_Contains path ''/v1/fine-tunes'' then Parsed [] None
          else if strings_Contains path ''/v1/moderations'' then Parsed [] None
          else if strings_Contains path ''/v1/images'' then Parsed ''DALL-E 2'' None
          else if strings_Contains path ''/v1/audio'' then
            (case json_Audio env bodyRaw of
               Inl err \<Rightarrow> ParseError (bodyError path err)
             | Inr model \<Rightarrow> Parsed model (Some (Audio model)))
          else if strings_HasSuffix path ''/v1/chat/completions'' then
            (case json_Chat env bodyRaw of
               Inl err \<Rightarrow> ParseError (bodyError path err)
             | Inr request \<Rightarrow> Parsed (Model request) (Some (Chat request)))
          else if strings_HasSuffix path ''/v1/completions'' then
            (case json_Completion env bodyRaw of
               Inl err \<Rightarrow> ParseError (bodyError path err)
             | Inr model \<Rightarrow> Parsed model (Some (Completion model)))
          else if strings_HasSuffix path ''/v1/embeddings'' then
            (case json_Embedding env bodyRaw of
               Inl err \<Rightarrow> ParseError (bodyError path err)
             | Inr model \<Rightarrow> Parsed model (Some (Embedding model)))
          else if strings_HasSuffix path ''/v1/edits'' then
            (case json_Edits env bodyRaw of
               Inl err \<Rightarrow> ParseError (bodyError path err)
             | Inr None \<Rightarrow> ParsePanic
             | Inr (Some model) \<Rightarrow> Parsed model (Some (Edits (Some model))))
          else Parsed [] None)"

section \<open>provider.go: forwardRequest\<close>

text \<open>
  What a handler does that others can observe, in the order it does it:
  \<open>HttpError code text\<close> is \<open>http.Error(w, text, code)\<close>, \<open>Submit model request\<close> the
  completed send on the channel of the scheduler of \<open>model\<close>, \<open>UpstreamCall request\<close> the
  call \<open>client.Do(request)\<close>, and \<open>Relay response\<close> the copy of the upstream headers,
  status and body to the client.
\<close>

datatype Action =
    HttpError nat string
  | Submit string ScheduledRequest
  | UpstreamCall HttpRequest
  | Relay HttpResponse

type_synonym HttpClient = "HttpRequest \<Rightarrow> string + HttpResponse"

text \<open>\<open>http.NewRequest\<close> for a valid method: it parses the text of the URL.\<close>

definition http_NewRequest :: "Env \<Rightarrow> string \<Rightarrow> string \<Rightarrow> string + string \<Rightarrow> string + HttpRequest" where
  "http_NewRequest env method urlStr body =
     (case url_Parse env urlStr of
        Inl err \<Rightarrow> Inl err
      | Inr u \<Rightarrow> Inr \<lparr>Method = method, URL = u, Body = body, Header = []\<rparr>)"

definition copyHeader :: "(string \<times> string) list \<Rightarrow> (string \<times> string) list \<Rightarrow> (string \<times> string) list" where
  "copyHeader dst src = dst @ src"

text \<open>The result is what was done and the error returned (\<open>None\<close> for \<open>nil\<close>).\<close>

definition forwardRequest :: "Env \<Rightarrow> HttpClient \<Rightarrow> string \<Rightarrow> HttpRequest \<Rightarrow> Action list \<times> string option" where
  "forwardRequest env client URLBase r =
     (case url_Parse env (URL_String env (URL r)) of
        Inl err \<Rightarrow> ([], Some err)
      | Inr url \<Rightarrow>
          let segments = strings_Split (Path url) CHR ''/'' in
          if length segments < 2 then ([], Some (''Invalid URL: '' @ URL_String env url))
          else
            let newPath = strings_Join (drop 2 segments) ''/'' in
            (case url_Parse env URLBase of
               Inl err \<Rightarrow> ([], Some err)
             | Inr targetURL \<Rightarrow>
                 let url1 = url\<lparr>Scheme := Scheme targetURL, Host := Host targetURL, Path := newPath\<rparr> in
                 (case http_NewRequest env (Method r) (URL_String env url1) (Body r) of
                    Inl err \<Rightarrow> ([], Some err)
                  | Inr request \<Rightarrow>
                      let request1 = request\<lparr>Header := copyHeader (Header request) (Header r)\<rparr> in
                      (case client request1 of
                         Inl err \<Rightarrow> ([UpstreamCall request1], Some err)
                       | Inr resp \<Rightarrow> ([UpstreamCall request1, Relay resp], io_Copy env resp)))))"

section \<open>openai.go: the handler\<close>

record OpenAIProvider =
  client :: HttpClient
  urlBase :: string
  schedulers :: SchedulerMap

definition NewOpenAI :: "RouteConfig \<Rightarrow> HttpClient \<Rightarrow> int \<Rightarrow> Fatal + OpenAIProvider" where
  "NewOpenAI config cl now =
     (if RouteProvider config \<noteq> ''openai'' then Inl WrongProvider
      else Inr \<lparr>client = cl,
                urlBase = Forward config,
                schedulers = initSchedulers (RouteProvider config) (Models config) now\<rparr>)"

text \<open>
  A send on a channel made with \<open>make(chan T, capacity)\<close> completes at once when the
  buffer has room (\<open>Some\<close> of the new buffer). When it has none, the sender blocks until
  the receiver takes an element (\<open>None\<close>).
\<close>

definition chan_send :: "int \<Rightarrow> 'a list \<Rightarrow> 'a \<Rightarrow> 'a list option" where
  "chan_send capacity buffer x =
     (if int (length buffer) < capacity then Some (buffer @ [x]) else None)"

text \<open>How a run of the handler ends: it returns, it is blocked in its send, or it panics.\<close>

datatype Halt = Returned | BlockedOnSend | Panicked

definition float64 :: "64 word \<Rightarrow> real" where
  "float64 n = real_of_int (sint n)"

text \<open>The end of the handler: \<open>forwardRequest\<close>, and 503 when it returns an error.\<close>

definition forward :: "Env \<Rightarrow> OpenAIProvider \<Rightarrow> HttpRequest \<Rightarrow> Action list \<times> Halt" where
  "forward env p r =
     (case forwardRequest env (client p) (urlBase p) r of
        (acts, None) \<Rightarrow> (acts, Returned)
      | (acts, Some err) \<Rightarrow>
          (acts @ [HttpError 503 (''LLMProxy: Error forwarding request: '' @ err)], Returned))"

text \<open>
  The closure \<open>GetHandler\<close> returns, run on request \<open>r\<close>. \<open>responseChannel\<close> names the
  channel the handler makes, and \<open>response\<close> is the verdict it receives on it, if it gets
  that far.
\<close>

definition GetHandler :: "Env \<Rightarrow> OpenAIProvider \<Rightarrow> nat \<Rightarrow> Response \<Rightarrow> HttpRequest \<Rightarrow> Action list \<times> Halt" where
  "GetHandler env p responseChannel response r =
     (case ParseRequest env r of
        ParsePanic \<Rightarrow> ([], Panicked)
      | ParseError err \<Rightarrow> ([HttpError 400 (''LLProxy: '' @ err)], Returned)
      | Parsed model request \<Rightarrow>
          if model \<noteq> [] then
            (case schedulers p model of
               None \<Rightarrow>
                 ([HttpError 400 (''LLMProxy: No scheduler found for model '' @ [CHR 0x27] @ model @ [CHR 0x27])],
                  Returned)
             | Some scheduler \<Rightarrow>
                 (case request of
                    None \<Rightarrow> ([], Panicked)
                  | Some req \<Rightarrow>
                      (case TokensForRequest env req of
                         Inl err \<Rightarrow>
                           ([HttpError 400 ''LLMProxy: could not extract tokens for request''], Returned)
                       | Inr tokens \<Rightarrow>
                           if ReqsPerMinute (Config scheduler) < 1 \<or>
                              TokensPerMinute (Config scheduler) < float64 tokens
                           then
                             ([HttpError 400 (''LLProxy: Request too large for model '' @ [CHR 0x27] @ model @ [CHR 0x27])],
                              Returned)
                           else
                             let scheduled = \<lparr>Request = r, ResponseChannel = responseChannel,
                                                RequiredTokenCapacity = float64 tokens\<rparr>
                             in (case chan_send (MaxQueueSize (Config scheduler)) (Requests scheduler) scheduled of
                                   None \<Rightarrow> ([], BlockedOnSend)
                                 | Some buffer \<Rightarrow>
                                     if response = RateLimit then
                                       ([Submit model scheduled,
                                         HttpError 429 (''LLMProxy: RateLimit exceeded for model '' @ [CHR 0x27] @ model @ [CHR 0x27])],
                                        Returned)
                                     else if response = RequestTooLarge then
                                       (case forward env p r of
                                          (acts, halt) \<Rightarrow>
                                            ([Submit model scheduled,
                                              HttpError 400 (''LLProxy: Request too large for model '' @ [CHR 0x27] @ model @ [CHR 0x27])]
                                             @ acts, halt))
                                     else
                                       (case forward env p r of
                                          (acts, halt) \<Rightarrow> (Submit model scheduled # acts, halt))))))
          else forward env p r)"

section \<open>Vocabulary of the properties\<close>

text \<open>The two start-up checks of \<open>run\<close> passed.\<close>

definition scheduler_ok :: "ModelConfig \<Rightarrow> bool" where
  "scheduler_ok c = (\<not> ReqsPerMinute c \<le> 1 \<and> \<not> TokensPerMinute c \<le> 1)"

definition capacity_inv :: "Scheduler \<Rightarrow> bool" where
  "capacity_inv s =
     (0 \<le> RequestCapacity s \<and> RequestCapacity s \<le> ReqsPerMinute (Config s) \<and>
      0 \<le> TokenCapacity s \<and> TokenCapacity s \<le> TokensPerMinute (Config s))"

text \<open>
  What holds of the capacities whatever the reservations ask for: after a debit the token
  capacity may stand above its ceiling only while the request capacity is below its own,
  so that the next update takes the branch that clamps.
\<close>

definition capacity_weak :: "Scheduler \<Rightarrow> bool" where
  "capacity_weak s =
     (0 \<le> RequestCapacity s \<and> RequestCapacity s \<le> ReqsPerMinute (Config s) \<and>
      0 \<le> TokenCapacity s \<and> 0 \<le> TokensPerMinute (Config s) \<and>
      (TokenCapacity s \<le> TokensPerMinute (Config s) \<or> RequestCapacity s < ReqsPerMinute (Config s)))"

text \<open>The capacities are in that state and the clock has not run backwards.\<close>

definition world_inv :: "Scheduler \<times> int \<Rightarrow> bool" where
  "world_inv w = (capacity_weak (fst w) \<and> LastReqTime (fst w) \<le> snd w)"

text \<open>The reservation of an arrival asks for no negative number of tokens.\<close>

definition event_tokens_nonneg :: "Event \<Rightarrow> bool" where
  "event_tokens_nonneg e =
     (case e of Arrival d request lates \<Rightarrow> 0 \<le> RequiredTokenCapacity request | Idle late \<Rightarrow> True)"

text \<open>The capacities the next \<open>updateCapacity\<close> would reach if it did not clamp.\<close>

definition virtualRequests :: "Scheduler \<times> int \<Rightarrow> real" where
  "virtualRequests w =
     RequestCapacity (fst w) + Minutes (snd w - LastReqTime (fst w)) * ReqsPerMinute (Config (fst w))"

definition virtualTokens :: "Scheduler \<times> int \<Rightarrow> real" where
  "virtualTokens w =
     TokenCapacity (fst w) + Minutes (snd w - LastReqTime (fst w)) * TokensPerMinute (Config (fst w))"

text \<open>The scheduler with another \<open>MaxQueueWait\<close> in its configuration.\<close>

definition with_wait :: "real \<Rightarrow> Scheduler \<Rightarrow> Scheduler" where
  "with_wait x s = s\<lparr>Config := (Config s)\<lparr>MaxQueueWait := x\<rparr>\<rparr>"



text \<open>
  Three facts of \<open>net/url\<close> that the rewritten path depends on. \<open>URL.String\<close> writes a
  path that follows a host with a leading \<open>/\<close> (\<open>rooted\<close>); \<open>url.Parse\<close> reads back what
  \<open>URL.String\<close> wrote (\<open>reads_back\<close>, a property the environment may have or not); and
  \<open>URL.RequestURI\<close>, the request target sent upstream, is \<open>/\<close> for the empty path.
\<close>

definition rooted :: "string \<Rightarrow> string" where
  "rooted p = (case p of [] \<Rightarrow> [] | c # cs \<Rightarrow> if c = CHR ''/'' then p else CHR ''/'' # p)"



section \<open>Fixtures\<close>

text \<open>
  The configuration, the upstream stub and the chat request of \<open>openai_test.go\<close>, with
  stand-ins for the libraries: a decoder that knows the one body the tests send, an
  encoder that gives every non-empty text one token, and a reader of \<open>https\<close> URLs
  without a query.
\<close>

definition FAKE_BASE_URL :: string where
  "FAKE_BASE_URL = ''https://fake-testing-host.com''"

definition TEST_MODEL :: string where
  "TEST_MODEL = ''gpt-3.5-turbo''"

definition MockHttpClient_Do :: HttpClient where
  "MockHttpClient_Do req =
     (if strings_HasSuffix (Path (URL req)) ''/v1/chat/completions''
      then Inr \<lparr>StatusCode = 200, ResponseHeader = [], ResponseBody = ''dummy response''\<rparr>
      else if strings_HasSuffix (Path (URL req)) ''/v1/embeddings''
      then Inr \<lparr>StatusCode = 200, ResponseHeader = [], ResponseBody = ''dummy embedding''\<rparr>
      else Inr \<lparr>StatusCode = 404, ResponseHeader = [], ResponseBody = ''not found''\<rparr>)"

definition test_config :: ModelConfig where
  "test_config = \<lparr>MaxQueueSize = 10, MaxQueueWait = 1.0, ReqsPerMinute = 60.0,
     TokensPerMinute = 60000.0, CharsPerMinute = 0\<rparr>"

text \<open>A model with two tokens a second, a queue of one and a wait of a tenth of a second.\<close>

definition slow_config :: ModelConfig where
  "slow_config = \<lparr>MaxQueueSize = 1, MaxQueueWait = 0.1, ReqsPerMinute = 60.0,
     TokensPerMinute = 120.0, CharsPerMinute = 0\<rparr>"

definition test_chat :: ChatCompletionRequest where
  "test_chat = \<lparr>Model = TEST_MODEL, Messages = [\<lparr>Role = ''system'', Content = ''test'', Name = []\<rparr>],
     MaxTokens = 0, N = 0\<rparr>"


text \<open>A chat request without messages whose \<open>n * max_tokens\<close> is \<open>2 ^ 63\<close>.\<close>

definition overflow_chat :: ChatCompletionRequest where
  "overflow_chat = \<lparr>Model = TEST_MODEL, Messages = [], MaxTokens = 2 ^ 31, N = 2 ^ 32\<rparr>"

definition test_tkm :: Tiktoken where
  "test_tkm text = (if text = [] then [] else [0])"

definition test_env :: Env where
  "test_env =
     \<lparr>json_Audio = (\<lambda>body. Inl ''unexpected end of JSON input''),
      json_Chat = (\<lambda>body. if body = ''chat body of the tests'' then Inr test_chat
                           else if body = ''chat body with n = 4294967296 and max_tokens = 2147483648''
                           then Inr overflow_chat
                           else Inl ''unexpected end of JSON input''),
      json_Completion = (\<lambda>body. Inl ''unexpected end of JSON input''),
      json_Embedding = (\<lambda>body. if body = ''chat body of the tests'' then Inr TEST_MODEL
                           else Inl ''unexpected end of JSON input''),
      json_Edits = (\<lambda>body. Inl ''unexpected end of JSON input''),
      EncodingForModel = (\<lambda>model. if strings_HasPrefix model ''gpt-'' then Inr test_tkm
                           else Inl (''no encoding for model '' @ model)),
      URL_String = (\<lambda>u. if Host u = [] then Path u else Scheme u @ ''://'' @ Host u @ rooted (Path u)),
      url_Parse = (\<lambda>text. if strings_HasPrefix text ''https://''
                          then Inr \<lparr>Scheme = ''https'',
                                    Host = takeWhile (\<lambda>c. c \<noteq> CHR ''/'') (drop 8 text),
                                    Path = dropWhile (\<lambda>c. c \<noteq> CHR ''/'') (drop 8 text), RawQuery = []\<rparr>
                          else Inr \<lparr>Scheme = [], Host = [], Path = text, RawQuery = []\<rparr>),
      io_Copy = (\<lambda>resp. None)\<rparr>"

text \<open>\<open>CreateOpenAI\<close> of the tests builds \<open>test_provider\<close> from \<open>test_route\<close> (\<open>CreateOpenAI_provider\<close>).\<close>

definition test_route :: RouteConfig where
  "test_route = \<lparr>Forward = FAKE_BASE_URL, RouteProvider = ''openai'', Models = [TEST_MODEL \<mapsto> test_config]\<rparr>"

definition test_provider :: OpenAIProvider where
  "test_provider =
     \<lparr>client = MockHttpClient_Do, urlBase = FAKE_BASE_URL,
      schedulers = [TEST_MODEL \<mapsto> initScheduler ''openai'' TEST_MODEL test_config 0]\<rparr>"

definition inbound :: "string \<Rightarrow> string \<Rightarrow> string \<Rightarrow> HttpRequest" where
  "inbound method path body =
     \<lparr>Method = method, URL = \<lparr>Scheme = [], Host = [], Path = path, RawQuery = []\<rparr>,
      Body = Inr body, Header = []\<rparr>"

definition test_request :: HttpRequest where
  "test_request = inbound ''POST'' ''/openai/v1/chat/completions'' ''chat body of the tests''"

definition overflow_request :: HttpRequest where
  "overflow_request =
     inbound ''POST'' ''/openai/v1/chat/completions''
       ''chat body with n = 4294967296 and max_tokens = 2147483648''"

definition test_upstream_request :: HttpRequest where
  "test_upstream_request =
     \<lparr>Method = ''POST'',
      URL = \<lparr>Scheme = ''https'', Host = ''fake-testing-host.com'', Path = ''/v1/chat/completions'',
             RawQuery = []\<rparr>,
      Body = Inr ''chat body of the tests'', Header = []\<rparr>"

definition reservation :: "nat \<Rightarrow> real \<Rightarrow> ScheduledRequest" where
  "reservation ch tokens = \<lparr>Request = test_request, ResponseChannel = ch, RequiredTokenCapacity = tokens\<rparr>"

text \<open>The test scheduler after a reservation of 60000 tokens was admitted at time 0.\<close>

definition drained :: Scheduler where
  "drained = (initScheduler ''openai'' TEST_MODEL test_config 0)\<lparr>RequestCapacity := 59, TokenCapacity := 0\<rparr>"

text \<open>A scheduler whose buffer of one already holds a reservation.\<close>

definition full_scheduler :: Scheduler where
  "full_scheduler =
     (initScheduler ''openai'' TEST_MODEL slow_config 0)\<lparr>Requests := [reservation 0 23]\<rparr>"

definition full_provider :: OpenAIProvider where
  "full_provider =
     \<lparr>client = MockHttpClient_Do, urlBase = FAKE_BASE_URL,
      schedulers = [TEST_MODEL \<mapsto> full_scheduler]\<rparr>"

lemmas scheduler_defs = initScheduler_def updateCapacity_def capacityTime_def requestTime_def
  tokensTime_def Let_def sleepTime_def Duration_of_float_def epsilon_def Second_def Minutes_def
  run_def reservation_def

lemmas test_defs = test_env_def test_provider_def inbound_def FAKE_BASE_URL_def TEST_MODEL_def
  MockHttpClient_Do_def test_config_def test_chat_def overflow_chat_def test_tkm_def rooted_def

lemmas handler_defs = GetHandler_def ParseRequest_def forward_def forwardRequest_def
  http_NewRequest_def copyHeader_def strings_HasSuffix_def
  ChatCompletionRequest_TokensForRequest_def tokensPerModel_def GPT_3_5_DEFAULT_def len_def
  float64_def chan_send_def word_sless_alt

section \<open>The scheduler: replenishment and the wait loop\<close>

lemma capacityTime_le_0_iff:
  assumes "0 < ReqsPerMinute (Config s)" "0 < TokensPerMinute (Config s)"
  shows "capacityTime request s \<le> 0 \<longleftrightarrow>
         1 \<le> RequestCapacity s \<and> RequiredTokenCapacity request \<le> TokenCapacity s"
proof -
  have r: "(1 - RequestCapacity s) / ReqsPerMinute (Config s) \<le> 0 \<longleftrightarrow> 1 \<le> RequestCapacity s"
    using assms(1) by (simp add: divide_le_0_iff)
  have t: "(RequiredTokenCapacity request - TokenCapacity s) / TokensPerMinute (Config s) \<le> 0
           \<longleftrightarrow> RequiredTokenCapacity request \<le> TokenCapacity s"
    using assms(2) by (simp add: divide_le_0_iff)
  show ?thesis
    unfolding capacityTime_def requestTime_def tokensTime_def using r t by simp
qed

lemma updateCapacity_Config [simp]: "Config (updateCapacity now s) = Config s"
  by (simp add: updateCapacity_def Let_def)

lemma updateCapacity_LastReqTime [simp]: "LastReqTime (updateCapacity now s) = now"
  by (simp add: updateCapacity_def Let_def)

lemma capacity_inv_weak: "capacity_inv s \<Longrightarrow> capacity_weak s"
  by (auto simp: capacity_inv_def capacity_weak_def)

lemma updateCapacity_inv:
  assumes "capacity_weak s" "LastReqTime s \<le> now"
  shows "capacity_inv (updateCapacity now s)"
proof -
  have e: "0 \<le> Minutes (now - LastReqTime s)" using assms(2) by (simp add: Minutes_def)
  have "0 \<le> ReqsPerMinute (Config s)" "0 \<le> TokensPerMinute (Config s)"
    using assms(1) by (auto simp: capacity_weak_def)
  then have r: "0 \<le> Minutes (now - LastReqTime s) * ReqsPerMinute (Config s)"
    "0 \<le> Minutes (now - LastReqTime s) * TokensPerMinute (Config s)" using e by simp_all
  show ?thesis
  proof (cases "TokenCapacity s < TokensPerMinute (Config s) \<or> RequestCapacity s < ReqsPerMinute (Config s)")
    case False
    with assms(1) show ?thesis
      by (auto simp: capacity_inv_def capacity_weak_def updateCapacity_def)
  next
    case True
    with r assms(1) show ?thesis
      by (auto simp: capacity_inv_def capacity_weak_def updateCapacity_def Let_def min_def)
  qed
qed

lemma waitForCapacity_result:
  assumes "waitForCapacity request lates (s, clock) = Some (s1, clock1)"
  shows "\<exists>s0. s1 = updateCapacity clock1 s0 \<and> Config s0 = Config s" "capacityTime request s1 \<le> 0" 
  using assms
proof (induction lates arbitrary: s clock)
  case Nil
  { case 1 then show ?case by (auto simp: Let_def split: if_splits) }
  { case 2 then show ?case by (auto simp: Let_def split: if_splits) }
next
  case (Cons late lates)
  { case 1 then show ?case using Cons.IH(1) by (fastforce simp: Let_def split: if_splits) }
  { case 2 then show ?case using Cons.IH(2) by (fastforce simp: Let_def split: if_splits) }
qed

lemma capacityTime_nonneg: "0 \<le> capacityTime request s"
  by (simp add: capacityTime_def requestTime_def le_max_iff_disj)

lemma sleepTime_nonneg: "0 \<le> c \<Longrightarrow> 0 \<le> sleepTime c"
  by (simp add: sleepTime_def Duration_of_float_def epsilon_def Second_def)

lemma sleepTime_ge: "0 \<le> c \<Longrightarrow> 10 ^ 8 \<le> sleepTime c"
proof -
  assume c: "0 \<le> c"
  have "(1/10::real) \<le> min 2.0 (c + epsilon)" using c by (simp add: epsilon_def)
  then have "(1/10::real) * 10 ^ 9 \<le> min 2.0 (c + epsilon) * Second"
    unfolding Second_def by (rule mult_right_mono) simp
  then have "real_of_int (10 ^ 8) \<le> min 2.0 (c + epsilon) * Second" by simp
  then have "10 ^ 8 \<le> \<lfloor>min 2.0 (c + epsilon) * Second\<rfloor>" by (rule le_floor_iff[THEN iffD2])
  moreover have "0 \<le> min 2.0 (c + epsilon) * Second" using c by (simp add: epsilon_def Second_def)
  ultimately show ?thesis by (simp add: sleepTime_def Duration_of_float_def)
qed

lemma sleepTime_le: "sleepTime c \<le> 2 * 10 ^ 9"
proof -
  have "min 2.0 (c + epsilon) * Second \<le> 2 * 10 ^ 9"
    unfolding Second_def by (simp add: min_def)
  then have "\<lfloor>min 2.0 (c + epsilon) * Second\<rfloor> \<le> 2 * 10 ^ 9" "\<lceil>min 2.0 (c + epsilon) * Second\<rceil> \<le> 2 * 10 ^ 9"
    by (simp_all add: floor_le_iff ceiling_le_iff)
  then show ?thesis by (simp add: sleepTime_def Duration_of_float_def)
qed

lemma waitForCapacity_world_inv:
  assumes "waitForCapacity request lates (s, clock) = Some (s1, clock1)" "world_inv (s, clock)"
  shows "capacity_inv s1 \<and> Config s1 = Config s \<and> clock \<le> clock1 \<and> LastReqTime s1 = clock1"
  using assms
proof (induction lates arbitrary: s clock)
  case Nil
  then show ?case by (auto simp: Let_def world_inv_def updateCapacity_inv split: if_splits)
next
  case (Cons late lates)
  let ?s1 = "updateCapacity clock s"
  show ?case
  proof (cases "capacityTime request ?s1 \<le> 0")
    case True
    with Cons.prems show ?thesis by (auto simp: Let_def world_inv_def updateCapacity_inv)
  next
    case False
    let ?c = "clock + sleepTime (capacityTime request ?s1) + int late"
    from False Cons.prems(1) have r: "waitForCapacity request lates (?s1, ?c) = Some (s1, clock1)"
      by (simp add: Let_def)
    have sl: "0 \<le> sleepTime (capacityTime request ?s1)"
      by (rule sleepTime_nonneg[OF capacityTime_nonneg])
    have "world_inv (?s1, ?c)" using Cons.prems(2) sl
      by (simp add: world_inv_def updateCapacity_inv capacity_inv_weak)
    from Cons.IH[OF r this] sl show ?thesis by simp
  qed
qed

lemma Minutes_ge: "10 ^ 8 \<le> d \<Longrightarrow> 1 / 600 \<le> Minutes d"
proof -
  assume "10 ^ 8 \<le> d"
  then have "real_of_int (10 ^ 8) \<le> real_of_int d" by (rule of_int_le_iff[THEN iffD2])
  then have "(10 ^ 8 :: real) \<le> real_of_int d" by simp
  then show ?thesis by (simp add: Minutes_def field_simps)
qed

lemma Minutes_nonneg: "0 \<le> d \<Longrightarrow> 0 \<le> Minutes d"
  by (simp add: Minutes_def)

lemma updateCapacity_lower:
  shows "min (RequestCapacity s + Minutes (now - LastReqTime s) * ReqsPerMinute (Config s)) (ReqsPerMinute (Config s))
           \<le> RequestCapacity (updateCapacity now s)"
    and "min (TokenCapacity s + Minutes (now - LastReqTime s) * TokensPerMinute (Config s)) (TokensPerMinute (Config s))
           \<le> TokenCapacity (updateCapacity now s)"
  by (auto simp: updateCapacity_def Let_def min_def)

lemma waitForCapacity_returns_aux:
  assumes ok: "scheduler_ok (Config s)"
      and fits: "RequiredTokenCapacity request \<le> TokensPerMinute (Config s)"
      and inv: "world_inv (s, clock)"
      and len: "n \<le> length lates"
      and vr: "ReqsPerMinute (Config s) * (1 - real n / 600) \<le> virtualRequests (s, clock)"
      and vt: "TokensPerMinute (Config s) * (1 - real n / 600) \<le> virtualTokens (s, clock)"
  shows "\<exists>r. waitForCapacity request lates (s, clock) = Some r"
  using assms
proof (induction n arbitrary: lates s clock)
  case 0
  let ?s1 = "updateCapacity clock s"
  have ci: "capacity_weak s" "LastReqTime s \<le> clock" using "0.prems"(3) by (simp_all add: world_inv_def)
  have pos: "1 < ReqsPerMinute (Config s)" "1 < TokensPerMinute (Config s)"
    using "0.prems"(1) by (simp_all add: scheduler_ok_def)
  have "ReqsPerMinute (Config s) \<le> RequestCapacity ?s1"
    using updateCapacity_lower(1)[of s clock] "0.prems"(5) by (simp add: virtualRequests_def)
  moreover have "TokensPerMinute (Config s) \<le> TokenCapacity ?s1"
    using updateCapacity_lower(2)[of s clock] "0.prems"(6) by (simp add: virtualTokens_def)
  ultimately have "capacityTime request ?s1 \<le> 0"
    using pos "0.prems"(2) by (subst capacityTime_le_0_iff) simp_all
  then show ?case by (cases lates) (simp_all add: Let_def)
next
  case (Suc n)
  let ?s1 = "updateCapacity clock s"
  have ci: "capacity_weak s" "LastReqTime s \<le> clock" using Suc.prems(3) by (simp_all add: world_inv_def)
  have pos: "1 < ReqsPerMinute (Config s)" "1 < TokensPerMinute (Config s)"
    using Suc.prems(1) by (simp_all add: scheduler_ok_def)
  from Suc.prems(4) obtain late rest where lates: "lates = late # rest" and len: "n \<le> length rest"
    by (cases lates) auto
  show ?case
  proof (cases "capacityTime request ?s1 \<le> 0")
    case True
    then show ?thesis by (simp add: lates Let_def)
  next
    case False
    let ?sl = "sleepTime (capacityTime request ?s1)"
    let ?c = "clock + ?sl + int late"
    have sl: "10 ^ 8 \<le> ?sl" by (rule sleepTime_ge[OF capacityTime_nonneg])
    then have m: "1 / 600 \<le> Minutes (?c - clock)" by (intro Minutes_ge) simp
    have winv: "world_inv (?s1, ?c)" using Suc.prems(3) sl
      by (simp add: world_inv_def updateCapacity_inv capacity_inv_weak)
    have r1: "ReqsPerMinute (Config s) * (1 - real (Suc n) / 600) \<le> RequestCapacity ?s1"
    proof -
      have "ReqsPerMinute (Config s) * (1 - real (Suc n) / 600) \<le> ReqsPerMinute (Config s)"
        using pos by (simp add: field_simps)
      with Suc.prems(5) updateCapacity_lower(1)[of s clock] show ?thesis
        by (simp add: virtualRequests_def min_def split: if_splits)
    qed
    have t1: "TokensPerMinute (Config s) * (1 - real (Suc n) / 600) \<le> TokenCapacity ?s1"
    proof -
      have "TokensPerMinute (Config s) * (1 - real (Suc n) / 600) \<le> TokensPerMinute (Config s)"
        using pos by (simp add: field_simps)
      with Suc.prems(6) updateCapacity_lower(2)[of s clock] show ?thesis
        by (simp add: virtualTokens_def min_def split: if_splits)
    qed
    have "ReqsPerMinute (Config s) * (1 / 600) \<le> Minutes (?c - clock) * ReqsPerMinute (Config s)"
      using m pos by (simp add: mult.commute mult_left_mono)
    with r1 have vr: "ReqsPerMinute (Config ?s1) * (1 - real n / 600) \<le> virtualRequests (?s1, ?c)"
      by (simp add: virtualRequests_def field_simps)
    have "TokensPerMinute (Config s) * (1 / 600) \<le> Minutes (?c - clock) * TokensPerMinute (Config s)"
      using m pos by (simp add: mult.commute mult_left_mono)
    with t1 have vt: "TokensPerMinute (Config ?s1) * (1 - real n / 600) \<le> virtualTokens (?s1, ?c)"
      by (simp add: virtualTokens_def field_simps)
    have "\<exists>r. waitForCapacity request rest (?s1, ?c) = Some r"
      by (rule Suc.IH[OF _ _ winv len vr vt]) (use Suc.prems in simp_all)
    with False show ?thesis by (simp add: lates Let_def)
  qed
qed

lemma waitForCapacity_returns:
  assumes "scheduler_ok (Config s)" "RequiredTokenCapacity request \<le> TokensPerMinute (Config s)"
    "world_inv (s, clock)" "600 \<le> length lates"
  shows "\<exists>r. waitForCapacity request lates (s, clock) = Some r"
proof (rule waitForCapacity_returns_aux[OF assms(1,2,3,4)])
  have ci: "capacity_weak s" "LastReqTime s \<le> clock" using assms(3) by (simp_all add: world_inv_def)
  have pos: "1 < ReqsPerMinute (Config s)" "1 < TokensPerMinute (Config s)"
    using assms(1) by (simp_all add: scheduler_ok_def)
  have "0 \<le> Minutes (clock - LastReqTime s)" using ci(2) by (simp add: Minutes_nonneg)
  then have "0 \<le> Minutes (clock - LastReqTime s) * ReqsPerMinute (Config s)"
       "0 \<le> Minutes (clock - LastReqTime s) * TokensPerMinute (Config s)" using pos by simp_all
  then show "ReqsPerMinute (Config s) * (1 - real 600 / 600) \<le> virtualRequests (s, clock)"
    "TokensPerMinute (Config s) * (1 - real 600 / 600) \<le> virtualTokens (s, clock)"
    using ci(1) by (simp_all add: virtualRequests_def virtualTokens_def capacity_weak_def)
qed

lemma run_iteration_admitted:
  assumes ok: "scheduler_ok (Config s)" and inv: "world_inv (s, clock)"
      and w: "waitForCapacity request lates (s, clock + int d) = Some (s1, c1)"
  shows "capacity_inv s1" "LastReqTime s1 \<le> c1" "Config s1 = Config s"
        "1 \<le> RequestCapacity s1" "RequiredTokenCapacity request \<le> TokenCapacity s1"
proof -
  have "world_inv (s, clock + int d)" using inv by (simp add: world_inv_def)
  from waitForCapacity_world_inv[OF w this]
  show i1: "capacity_inv s1" "LastReqTime s1 \<le> c1" "Config s1 = Config s" by simp_all
  have pos: "0 < ReqsPerMinute (Config s1)" "0 < TokensPerMinute (Config s1)"
    using ok i1(3) by (simp_all add: scheduler_ok_def)
  from waitForCapacity_result(2)[OF w] capacityTime_le_0_iff[OF pos]
  show "1 \<le> RequestCapacity s1" "RequiredTokenCapacity request \<le> TokenCapacity s1" by simp_all
qed

lemma run_iteration_world_inv:
  assumes ok: "scheduler_ok (Config s)" and inv: "world_inv (s, clock)"
      and r: "run_iteration e (s, clock) = Some (w', v)"
  shows "world_inv w' \<and> Config (fst w') = Config s"
proof (cases e)
  case (Idle late)
  with r inv show ?thesis
    by (auto simp: Let_def world_inv_def updateCapacity_inv capacity_inv_weak)
next
  case (Arrival d request lates)
  show ?thesis
  proof (cases "RequiredTokenCapacity request > TokensPerMinute (Config s)")
    case True
    with r inv Arrival show ?thesis by (auto simp: Let_def world_inv_def)
  next
    case False
    with r Arrival obtain s1 c1 where
      w: "waitForCapacity request lates (s, clock + int d) = Some (s1, c1)" and
      w': "w' = (s1\<lparr>TokenCapacity := TokenCapacity s1 - RequiredTokenCapacity request,
                       RequestCapacity := RequestCapacity s1 - 1\<rparr>, c1)"
      by (auto simp: Let_def split: option.splits)
    from run_iteration_admitted[OF ok inv w] w' show ?thesis
      by (auto simp: world_inv_def capacity_inv_def capacity_weak_def)
  qed
qed

lemma run_iteration_capacity_inv:
  assumes ok: "scheduler_ok (Config s)" and inv: "world_inv (s, clock)" and ci: "capacity_inv s"
      and nn: "event_tokens_nonneg e"
      and r: "run_iteration e (s, clock) = Some (w', v)"
  shows "capacity_inv (fst w')"
proof (cases e)
  case (Idle late)
  with r inv show ?thesis
    by (auto simp: Let_def world_inv_def updateCapacity_inv)
next
  case (Arrival d request lates)
  show ?thesis
  proof (cases "RequiredTokenCapacity request > TokensPerMinute (Config s)")
    case True
    with r ci Arrival show ?thesis by (auto simp: Let_def)
  next
    case False
    with r Arrival obtain s1 c1 where
      w: "waitForCapacity request lates (s, clock + int d) = Some (s1, c1)" and
      w': "w' = (s1\<lparr>TokenCapacity := TokenCapacity s1 - RequiredTokenCapacity request,
                       RequestCapacity := RequestCapacity s1 - 1\<rparr>, c1)"
      by (auto simp: Let_def split: option.splits)
    have "0 \<le> RequiredTokenCapacity request" using nn Arrival by (simp add: event_tokens_nonneg_def)
    with run_iteration_admitted[OF ok inv w] w' show ?thesis
      by (simp add: capacity_inv_def)
  qed
qed

lemma run_loop_world_inv:
  assumes "scheduler_ok (Config (fst w))" "world_inv w" "run_loop es w = Some (w', sends)"
  shows "world_inv w' \<and> Config (fst w') = Config (fst w)"
  using assms
proof (induction es arbitrary: w sends)
  case Nil
  then show ?case by simp
next
  case (Cons e es)
  from Cons.prems(3) obtain w1 sent sends1 where
    it: "run_iteration e w = Some (w1, sent)" and rest: "run_loop es w1 = Some (w', sends1)"
    by (auto split: option.splits)
  obtain s clock where w: "w = (s, clock)" by (cases w)
  from run_iteration_world_inv[of s clock e w1 sent] Cons.prems it w
  have 1: "world_inv w1" "Config (fst w1) = Config (fst w)" by simp_all
  from Cons.IH[OF _ 1(1) rest] 1(2) Cons.prems show ?case by simp
qed

lemma run_loop_capacity_inv:
  assumes "scheduler_ok (Config (fst w))" "world_inv w" "capacity_inv (fst w)"
    "list_all event_tokens_nonneg es" "run_loop es w = Some (w', sends)"
  shows "capacity_inv (fst w')"
  using assms
proof (induction es arbitrary: w sends)
  case Nil
  then show ?case by simp
next
  case (Cons e es)
  from Cons.prems(5) obtain w1 sent sends1 where
    it: "run_iteration e w = Some (w1, sent)" and rest: "run_loop es w1 = Some (w', sends1)"
    by (auto split: option.splits)
  obtain s clock where w: "w = (s, clock)" by (cases w)
  from run_iteration_world_inv[of s clock e w1 sent] Cons.prems it w
  have 1: "world_inv w1" "Config (fst w1) = Config (fst w)" by simp_all
  from run_iteration_capacity_inv[of s clock e w1 sent] Cons.prems it w
  have 2: "capacity_inv (fst w1)" by simp
  from Cons.IH[OF _ 1(1) 2 _ rest] 1(2) Cons.prems show ?case by simp
qed

lemma initScheduler_inv:
  assumes "scheduler_ok cfg"
  shows "capacity_inv (initScheduler provider name cfg t0)"
    and "world_inv (initScheduler provider name cfg t0, t0)"
  using assms
  by (simp_all add: world_inv_def capacity_inv_def capacity_weak_def initScheduler_def scheduler_ok_def)

lemma run_started:
  "run es w = Inr r \<Longrightarrow> scheduler_ok (Config (fst w)) \<and> r = run_loop es w"
  by (auto simp: run_def scheduler_ok_def split: if_splits)

lemma run_iteration_delivers:
  assumes "scheduler_ok (Config s)" and "world_inv (s, clock)" and "600 \<le> length lates"
  shows "\<exists>w v. run_iteration (Arrival d request lates) (s, clock) = Some (w, Some (ResponseChannel request, v))"
proof (cases "RequiredTokenCapacity request > TokensPerMinute (Config s)")
  case True
  then show ?thesis by (simp add: Let_def)
next
  case False
  have "world_inv (s, clock + int d)" using assms(2) by (simp add: world_inv_def)
  from waitForCapacity_returns[OF assms(1) _ this assms(3), of request] False
  obtain s1 c1 where "waitForCapacity request lates (s, clock + int d) = Some (s1, c1)" by fastforce
  with False show ?thesis by (simp add: Let_def)
qed

lemma scheduler_never_sends_RateLimit:
  "run_iteration e w = Some (w', Some (ch, v)) \<Longrightarrow> v \<noteq> RateLimit"
  by (cases e; cases w) (auto simp: Let_def split: if_splits option.splits)

text \<open>
  The loop does the same whatever \<open>MaxQueueWait\<close> is: the field is never read.
\<close>

lemma updateCapacity_with_wait:
  "updateCapacity now (with_wait x s) = with_wait x (updateCapacity now s)"
  by (simp add: updateCapacity_def with_wait_def Let_def)

lemma capacityTime_with_wait: "capacityTime request (with_wait x s) = capacityTime request s"
  by (simp add: capacityTime_def requestTime_def tokensTime_def with_wait_def)

lemma waitForCapacity_with_wait:
  "waitForCapacity request lates (with_wait x s, clock) =
     map_option (\<lambda>(s1, clock1). (with_wait x s1, clock1)) (waitForCapacity request lates (s, clock))"
  by (induction lates arbitrary: s clock)
     (simp_all add: Let_def updateCapacity_with_wait capacityTime_with_wait)

lemma with_wait_fields:
  "TokensPerMinute (Config (with_wait x s)) = TokensPerMinute (Config s)"
  "with_wait x (s\<lparr>TokenCapacity := t, RequestCapacity := q\<rparr>) =
     (with_wait x s)\<lparr>TokenCapacity := t, RequestCapacity := q\<rparr>"
  "TokenCapacity (with_wait x s) = TokenCapacity s"
  "RequestCapacity (with_wait x s) = RequestCapacity s"
  by (simp_all add: with_wait_def)

lemma scheduler_ignores_MaxQueueWait:
  "run_iteration e (with_wait x s, clock) =
     map_option (\<lambda>((s1, clock1), sent). ((with_wait x s1, clock1), sent)) (run_iteration e (s, clock))"
proof (cases e)
  case (Idle late)
  then show ?thesis by (simp add: Let_def updateCapacity_with_wait)
next
  case (Arrival d request lates)
  then show ?thesis
    by (cases "waitForCapacity request lates (s, clock + int d)")
       (auto simp: Let_def waitForCapacity_with_wait with_wait_fields)
qed

section \<open>The scheduler: claims\<close>

text \<open>
  Claim C3. For a dequeued reservation the scheduler sends \<open>Ready\<close> only when, after the
  last replenishment of the wait loop, \<open>RequestCapacity \<ge> 1\<close> and \<open>TokenCapacity\<close> is at
  least the required tokens; the state it leaves is that replenished state with exactly 1
  taken from \<open>RequestCapacity\<close> and exactly the required tokens taken from
  \<open>TokenCapacity\<close>, produced by the same step that sends the verdict. The scheduler is one
  that passed the start-up checks of \<open>run\<close>.
\<close>

theorem ready_only_with_capacity:
  assumes "scheduler_ok (Config s)"
      and "run_iteration (Arrival d request lates) (s, clock) = Some ((s', clock'), Some (ch, Ready))"
  shows "\<exists>s0 s1. waitForCapacity request lates (s, clock + int d) = Some (s1, clock') \<and>
           s1 = updateCapacity clock' s0 \<and>
           1 \<le> RequestCapacity s1 \<and> RequiredTokenCapacity request \<le> TokenCapacity s1 \<and>
           s' = s1\<lparr>TokenCapacity := TokenCapacity s1 - RequiredTokenCapacity request,
                     RequestCapacity := RequestCapacity s1 - 1\<rparr>"
proof -
  from assms(2) obtain s1 where
    w: "waitForCapacity request lates (s, clock + int d) = Some (s1, clock')" and
    s': "s' = s1\<lparr>TokenCapacity := TokenCapacity s1 - RequiredTokenCapacity request,
                     RequestCapacity := RequestCapacity s1 - 1\<rparr>"
    by (auto simp: Let_def split: if_splits option.splits)
  from waitForCapacity_result(1)[OF w] obtain s0 where
    s0: "s1 = updateCapacity clock' s0" "Config s0 = Config s" by blast
  then have pos: "0 < ReqsPerMinute (Config s1)" "0 < TokensPerMinute (Config s1)"
    using assms(1) by (simp_all add: scheduler_ok_def)
  from waitForCapacity_result(2)[OF w] capacityTime_le_0_iff[OF pos]
  have "1 \<le> RequestCapacity s1" "RequiredTokenCapacity request \<le> TokenCapacity s1" by simp_all
  with w s' s0(1) show ?thesis by blast
qed

theorem ready_only_with_capacity_witness:
  "scheduler_ok (Config drained) \<and>
   run_iteration (Arrival 0 (reservation 7 50) [0]) (drained, 0) =
     Some ((drained\<lparr>LastReqTime := 100833333, RequestCapacity := 58100833333 / 1000000000,
                     TokenCapacity := 50833333 / 1000000\<rparr>, 100833333), Some (7, Ready)) \<and>
   (\<exists>s1. waitForCapacity (reservation 7 50) [0] (drained, 0) = Some (s1, 100833333) \<and>
         1 \<le> RequestCapacity s1 \<and> 50 \<le> TokenCapacity s1)"
proof -
  have a: "scheduler_ok (Config drained)"
    by (simp add: scheduler_ok_def drained_def initScheduler_def test_config_def)
  have b: "run_iteration (Arrival 0 (reservation 7 50) [0]) (drained, 0) =
     Some ((drained\<lparr>LastReqTime := 100833333, RequestCapacity := 58100833333 / 1000000000,
                     TokenCapacity := 50833333 / 1000000\<rparr>, 100833333), Some (7, Ready))"
    by (simp add: drained_def scheduler_defs test_config_def)
  from ready_only_with_capacity[OF a b] a b show ?thesis
    by (auto simp: reservation_def)
qed

text \<open>
  The bounds of claim C5 that hold, from the state \<open>initSchedulers\<close> builds and after any
  number of iterations of the loop of \<open>run\<close> (each ends with a capacity update, an
  admission debit or a rejection): \<open>0 \<le> RequestCapacity \<le> ReqsPerMinute\<close> and
  \<open>0 \<le> TokenCapacity\<close>, so no debit drives a capacity negative; every later
  \<open>updateCapacity\<close> leaves both capacities between 0 and their ceilings; and
  \<open>TokenCapacity \<le> TokensPerMinute\<close> after a debit too when the reservations ask for
  no negative number of tokens.
\<close>

theorem capacity_within_bounds:
  assumes "run es (initScheduler provider name cfg t0, t0) = Inr (Some ((s, clock), sends))"
  shows "0 \<le> RequestCapacity s \<and> RequestCapacity s \<le> ReqsPerMinute (Config s) \<and>
         0 \<le> TokenCapacity s \<and>
         (\<forall>now\<ge>clock. capacity_inv (updateCapacity now s)) \<and>
         (list_all event_tokens_nonneg es \<longrightarrow> capacity_inv s)"
proof -
  let ?w = "(initScheduler provider name cfg t0, t0)"
  from run_started[OF assms(1)] have ok: "scheduler_ok (Config (fst ?w))"
    and l: "run_loop es ?w = Some ((s, clock), sends)" by simp_all
  from ok have c: "scheduler_ok cfg" by (simp add: initScheduler_def)
  from run_loop_world_inv[OF ok initScheduler_inv(2)[OF c] l]
  have w: "world_inv (s, clock)" by simp
  have "capacity_inv s" if "list_all event_tokens_nonneg es"
    using run_loop_capacity_inv[OF ok initScheduler_inv(2)[OF c] _ that l] initScheduler_inv(1)[OF c]
    by simp
  with w show ?thesis
    by (auto simp: world_inv_def capacity_weak_def intro: updateCapacity_inv)
qed

theorem capacity_within_bounds_witness:
  "run [Arrival 0 (reservation 1 60000) [], Idle 0, Arrival 500 (reservation 2 2100) [0]]
       (initScheduler ''openai'' TEST_MODEL test_config 0, 0) =
     Inr (Some (((initScheduler ''openai'' TEST_MODEL test_config 0)
                   \<lparr>LastReqTime := 2101667158, RequestCapacity := 59, TokenCapacity := 833579 / 500000\<rparr>,
                 2101667158), [(1, Ready), (2, Ready)])) \<and>
   capacity_inv ((initScheduler ''openai'' TEST_MODEL test_config 0)
                   \<lparr>LastReqTime := 2101667158, RequestCapacity := 59, TokenCapacity := 833579 / 500000\<rparr>) \<and>
   capacity_inv (updateCapacity 2200000000 ((initScheduler ''openai'' TEST_MODEL test_config 0)
                   \<lparr>LastReqTime := 2101667158, RequestCapacity := 59, TokenCapacity := 833579 / 500000\<rparr>))"
proof -
  let ?es = "[Arrival 0 (reservation 1 60000) [], Idle 0, Arrival 500 (reservation 2 2100) [0]]"
  have a: "run ?es (initScheduler ''openai'' TEST_MODEL test_config 0, 0) =
     Inr (Some (((initScheduler ''openai'' TEST_MODEL test_config 0)
                   \<lparr>LastReqTime := 2101667158, RequestCapacity := 59, TokenCapacity := 833579 / 500000\<rparr>,
                 2101667158), [(1, Ready), (2, Ready)]))"
    by (simp add: scheduler_defs test_config_def)
  have b: "list_all event_tokens_nonneg ?es"
    by (simp add: event_tokens_nonneg_def reservation_def)
  from capacity_within_bounds[OF a] a b show ?thesis by simp
qed

text \<open>
  Claim C10. When the scheduler answers a dequeued reservation with \<open>RequestTooLarge\<close>
  (its required tokens exceed \<open>TokensPerMinute\<close>), the scheduler is exactly as it was when
  the reservation was dequeued: \<open>RequestCapacity\<close>, \<open>TokenCapacity\<close> and \<open>LastReqTime\<close>
  are unchanged and nothing is debited.
\<close>

theorem too_large_leaves_scheduler_unchanged:
  assumes "run_iteration (Arrival d request lates) (s, clock) = Some ((s', clock'), Some (ch, RequestTooLarge))"
  shows "s' = s \<and> TokensPerMinute (Config s) < RequiredTokenCapacity request \<and>
         RequestCapacity s' = RequestCapacity s \<and> TokenCapacity s' = TokenCapacity s \<and>
         LastReqTime s' = LastReqTime s"
  using assms by (auto simp: Let_def split: if_splits option.splits)

theorem too_large_leaves_scheduler_unchanged_witness:
  "run_iteration (Arrival 0 (reservation 3 60001) []) (drained, 0) =
     Some ((drained, 0), Some (3, RequestTooLarge)) \<and>
   TokensPerMinute (Config drained) < RequiredTokenCapacity (reservation 3 60001) \<and>
   RequestCapacity drained = 59 \<and> TokenCapacity drained = 0 \<and> LastReqTime drained = 0"
proof -
  have a: "run_iteration (Arrival 0 (reservation 3 60001) []) (drained, 0) =
     Some ((drained, 0), Some (3, RequestTooLarge))"
    by (simp add: drained_def scheduler_defs test_config_def)
  from too_large_leaves_scheduler_unchanged[OF a] a show ?thesis
    by (simp add: drained_def initScheduler_def)
qed

text \<open>
  Claim C1 says that a reservation gets its verdict no later than
  \<open>submitted_at + max_queue_wait\<close> plus one polling period of two seconds, and that the
  verdict is \<open>RateLimit\<close> when it was not admitted by the deadline. The scheduler never
  reads \<open>MaxQueueWait\<close> (\<open>scheduler_ignores_MaxQueueWait\<close>) and never sends \<open>RateLimit\<close>
  (\<open>scheduler_never_sends_RateLimit\<close>). Here a model of 120 tokens a minute with a wait
  of 0.1 seconds admits a reservation of 120 tokens at time 0; a second one of 5 tokens,
  dequeued at time 0, gets \<open>Ready\<close> after 2.527792167 seconds and 21 sleeps, later than
  the deadline and two seconds.
\<close>

theorem deadline_is_not_enforced:
  "run [Arrival 0 (reservation 1 120) [],
        Arrival 0 (reservation 2 5) [0, 0, 0, 0, 0, 0, 0, 0, 0, 0, 0, 0, 0, 0, 0, 0, 0, 0, 0, 0, 0]]
       (initScheduler ''openai'' TEST_MODEL slow_config 0, 0) =
     Inr (Some (((initScheduler ''openai'' TEST_MODEL slow_config 0)
                   \<lparr>LastReqTime := 2527792167, RequestCapacity := 59,
                     TokenCapacity := 27792167 / 500000000\<rparr>,
                 2527792167), [(1, Ready), (2, Ready)])) \<and>
   0 + Duration_of_float (MaxQueueWait slow_config * Second) + 2 * 10 ^ 9 < (2527792167 :: int)"
  by (simp add: scheduler_defs slow_config_def)

text \<open>
  Claim C6 says that with a positive capacity gap \<open>need\<close>, in minutes, the loop sleeps
  \<open>min(2 s, need * 60 s + 0.1 s)\<close>. The code multiplies \<open>min(2, need + 0.1)\<close> by
  \<open>time.Second\<close>: the gap in minutes is taken as seconds. For a reservation of 150 tokens
  on the drained test scheduler the gap is 1/400 minute (0.15 s); the code sleeps
  0.1025 s where the claim gives 0.25 s.
\<close>

theorem sleep_takes_minutes_for_seconds:
  "capacityTime (reservation 2 150) (updateCapacity 0 drained) = 1 / 400 \<and>
   sleepTime (capacityTime (reservation 2 150) (updateCapacity 0 drained)) = 102500000 \<and>
   Duration_of_float (min 2.0 (1 / 400 * 60 + epsilon) * Second) = 250000000 \<and>
   run_iteration (Arrival 0 (reservation 2 150) [0, 0]) (drained, 0) =
     Some ((drained\<lparr>LastReqTime := 203291666, RequestCapacity := 29101645833 / 500000000,
                     TokenCapacity := 26645833 / 500000\<rparr>, 203291666), Some (2, Ready))"
  by (simp add: drained_def scheduler_defs test_config_def)

section \<open>The token estimate\<close>





section \<open>The path sent upstream\<close>













section \<open>The handler\<close>

lemma CreateOpenAI_provider: "NewOpenAI test_route MockHttpClient_Do 0 = Inr test_provider"
proof -
  have "initSchedulers ''openai'' [TEST_MODEL \<mapsto> test_config] 0 =
        [TEST_MODEL \<mapsto> initScheduler ''openai'' TEST_MODEL test_config 0]"
    by (rule ext) (simp add: initSchedulers_def)
  then show ?thesis
    by (simp add: NewOpenAI_def test_route_def test_provider_def)
qed

text \<open>
  Claim C8, as the code has it. A \<open>POST\<close> whose path contains \<open>/v1/images\<close> (and none of
  \<open>/v1/files\<close>, \<open>/v1/fine-tunes\<close>, \<open>/v1/moderations\<close>, which are tried first) is given
  the model \<open>DALL-E 2\<close>, and the handler looks up the scheduler of that name; with no such
  scheduler it answers 400 and forwards nothing.
\<close>

theorem images_use_DALL_E_2_scheduler:
  assumes "Method r = ''POST''" and "Body r = Inr bodyRaw"
      and "strings_Contains (Path (URL r)) ''/v1/images''"
      and "\<not> strings_Contains (Path (URL r)) ''/v1/files''"
      and "\<not> strings_Contains (Path (URL r)) ''/v1/fine-tunes''"
      and "\<not> strings_Contains (Path (URL r)) ''/v1/moderations''"
  shows "ParseRequest env r = Parsed ''DALL-E 2'' None \<and>
         (schedulers p ''DALL-E 2'' = None \<longrightarrow>
            GetHandler env p responseChannel response r =
              ([HttpError 400 (''LLMProxy: No scheduler found for model '' @ [CHR 0x27] @ ''DALL-E 2'' @ [CHR 0x27])],
               Returned))"
proof -
  have "ParseRequest env r = Parsed ''DALL-E 2'' None"
    using assms by (simp add: ParseRequest_def Let_def)
  then show ?thesis by (simp add: GetHandler_def)
qed

theorem images_use_DALL_E_2_scheduler_witness:
  "schedulers test_provider ''DALL-E 2'' = None \<and>
   ParseRequest test_env (inbound ''POST'' ''/openai/v1/images/generations'' ''prompt'') = Parsed ''DALL-E 2'' None \<and>
   GetHandler test_env test_provider 1 Ready (inbound ''POST'' ''/openai/v1/images/generations'' ''prompt'') =
     ([HttpError 400 (''LLMProxy: No scheduler found for model '' @ [CHR 0x27] @ ''DALL-E 2'' @ [CHR 0x27])], Returned)"
proof -
  let ?r = "inbound ''POST'' ''/openai/v1/images/generations'' ''prompt''"
  have 1: "Method ?r = ''POST''" "Body ?r = Inr ''prompt''" by (simp_all add: inbound_def)
  have 2: "strings_Contains (Path (URL ?r)) ''/v1/images''" by (simp add: inbound_def)
  have 3: "\<not> strings_Contains (Path (URL ?r)) ''/v1/files''"
    "\<not> strings_Contains (Path (URL ?r)) ''/v1/fine-tunes''"
    "\<not> strings_Contains (Path (URL ?r)) ''/v1/moderations''" by (simp_all add: inbound_def)
  have 4: "schedulers test_provider ''DALL-E 2'' = None" by (simp add: test_provider_def TEST_MODEL_def)
  from images_use_DALL_E_2_scheduler[OF 1 2 3, of test_env test_provider 1 Ready] 4
  show ?thesis by simp
qed

text \<open>
  Claim C8 as stated fails: with the provider of the tests, which has a scheduler for
  \<open>gpt-3.5-turbo\<close> only, a \<open>POST\<close> to \<open>/openai/v1/images/generations\<close> is answered 400
  after the scheduler lookup and is not sent upstream.
\<close>

theorem images_not_forwarded_counterexample:
  "GetHandler test_env test_provider 1 Ready (inbound ''POST'' ''/openai/v1/images/generations'' ''prompt'') =
     ([HttpError 400 (''LLMProxy: No scheduler found for model '' @ [CHR 0x27] @ ''DALL-E 2'' @ [CHR 0x27])], Returned)"
  by (simp add: GetHandler_def ParseRequest_def Let_def test_defs)


text \<open>
  Claim C2 says that a submission to a full buffer fails at once and the client gets 429.
  The handler sends with a plain channel send, which blocks while the buffer is full:
  with a buffer of one that holds a reservation, the handler has answered nothing and is
  blocked in its send.
\<close>

theorem full_buffer_blocks_the_handler:
  "schedulers full_provider TEST_MODEL = Some full_scheduler \<and>
   int (length (Requests full_scheduler)) = MaxQueueSize (Config full_scheduler) \<and>
   GetHandler test_env full_provider 1 RateLimit test_request = ([], BlockedOnSend)"
  by (simp add: handler_defs Let_def test_defs test_request_def full_provider_def full_scheduler_def
      slow_config_def initScheduler_def)

text \<open>
  Claim C5 says that after any admission debit \<open>token_capacity\<close> is at most
  \<open>tokens_per_minute\<close>. The estimate is computed in Go's \<open>int\<close> and wraps around: for a
  chat request without messages, with \<open>n = 2 ^ 32\<close> and \<open>max_tokens = 2 ^ 31\<close>, it is
  \<open>3 + 2 ^ 63\<close>, the negative number -9223372036854775805. The handler's check lets it
  pass, the scheduler admits it at once, and the debit of a negative number lifts
  \<open>TokenCapacity\<close> of the test scheduler from 60000 to 9223372036854835805.
\<close>

theorem negative_estimate_lifts_token_capacity:
  "TokensForRequest test_env (Chat overflow_chat) = Inr (- 9223372036854775805) \<and>
   GetHandler test_env test_provider 1 Ready overflow_request =
     ([Submit ''gpt-3.5-turbo''
         \<lparr>Request = overflow_request, ResponseChannel = 1, RequiredTokenCapacity = - 9223372036854775805\<rparr>,
       UpstreamCall (test_upstream_request
         \<lparr>Body := Inr ''chat body with n = 4294967296 and max_tokens = 2147483648''\<rparr>),
       Relay \<lparr>StatusCode = 200, ResponseHeader = [], ResponseBody = ''dummy response''\<rparr>], Returned) \<and>
   run [Arrival 0 \<lparr>Request = overflow_request, ResponseChannel = 1,
                     RequiredTokenCapacity = - 9223372036854775805\<rparr> []]
       (initScheduler ''openai'' TEST_MODEL test_config 0, 0) =
     Inr (Some (((initScheduler ''openai'' TEST_MODEL test_config 0)
                   \<lparr>RequestCapacity := 59, TokenCapacity := 9223372036854835805\<rparr>, 0),
                [(1, Ready)])) \<and>
   TokensPerMinute test_config < 9223372036854835805"
  by (simp add: handler_defs scheduler_defs Let_def test_defs overflow_request_def
      test_upstream_request_def)

end
